theory Spec2Isabelle
  imports Main "HOL-Library.Word" "HOL-Library.List_Lexorder" "HOL-Library.Char_ord"
begin

unbundle bit_operations_syntax

section \<open>Errors\<close>

text \<open>
  The exceptions that can leave the code of \<^verbatim>\<open>vssource/indexers/base.py\<close>: the two
  \<^verbatim>\<open>CustomRuntimeError\<close>s it raises itself (with their message), and the ones raised by the
  library calls it makes (\<^verbatim>\<open>files[0]\<close>, \<^verbatim>\<open>stat\<close>, \<^verbatim>\<open>to_bytes\<close>, \<^verbatim>\<open>unlink\<close>).
\<close>

datatype error =
    IndexError
  | FileNotFoundError string
  | OverflowError
  | OSError string
  | CustomRuntimeError string

section \<open>Paths\<close>

text \<open>
  \<^verbatim>\<open>SPath\<close> is a \<^verbatim>\<open>pathlib.Path\<close> subclass imported from \<^verbatim>\<open>vstools\<close>. A path is
  represented by its \<^verbatim>\<open>parts\<close>: the components in order, the first one being \<^verbatim>\<open>/\<close> for an
  absolute path. Equality and ordering of paths are those of the parts, compared as lists
  of strings, which is how \<^verbatim>\<open>pathlib\<close> compares POSIX paths.
\<close>

type_synonym spath = "string list"

fun split_sep :: "string \<Rightarrow> string list" where
  "split_sep [] = [[]]"
| "split_sep (c # cs) =
     (if c = CHR ''/'' then [] # split_sep cs
      else (case split_sep cs of [] \<Rightarrow> [[c]] | p # ps \<Rightarrow> (c # p) # ps))"

definition SPath :: "string \<Rightarrow> spath" where
  \<comment> \<open>Modelled from the spec: the path constructor of \<^verbatim>\<open>vstools\<close>, as \<^verbatim>\<open>pathlib\<close> parses a POSIX
      path: empty and \<^verbatim>\<open>.\<close> components are dropped, a leading slash is the root part.\<close>
  "SPath s =
     (if s \<noteq> [] \<and> hd s = CHR ''/'' then [''/''] else [])
       @ filter (\<lambda>c. c \<noteq> [] \<and> c \<noteq> ''.'') (split_sep s)"

fun join_with :: "string \<Rightarrow> string list \<Rightarrow> string" where
  "join_with sep [] = []"
| "join_with sep [x] = x"
| "join_with sep (x # y # ys) = x @ sep @ join_with sep (y # ys)"

fun to_str :: "spath \<Rightarrow> string" where
  "to_str [] = ''.''"
| "to_str (r # ps) = (if r = ''/'' then ''/'' @ join_with ''/'' ps else join_with ''/'' (r # ps))"

definition get_folder :: "spath \<Rightarrow> spath" where
  \<comment> \<open>Modelled from the spec: \<^verbatim>\<open>SPath.get_folder\<close> of \<^verbatim>\<open>vstools\<close>, which the spec describes as
      the parent directory of a file; the root is its own parent.\<close>
  "get_folder p = (if p = [''/''] then p else butlast p)"

definition name :: "spath \<Rightarrow> string" where
  "name p = (if p = [] \<or> p = [''/''] then [] else last p)"

definition stem_of :: "string \<Rightarrow> string" where
  \<comment> \<open>\<^verbatim>\<open>pathlib\<close>: the name up to its last dot, when that dot is neither the first nor the
      last character; the whole name otherwise.\<close>
  "stem_of n =
     (let after = takeWhile (\<lambda>c. c \<noteq> CHR ''.'') (rev n);
          upto = dropWhile (\<lambda>c. c \<noteq> CHR ''.'') (rev n)
      in if upto = [] \<or> tl upto = [] \<or> after = [] then n else rev (tl upto))"

definition stem :: "spath \<Rightarrow> string" where
  "stem p = stem_of (name p)"

definition with_suffix :: "spath \<Rightarrow> string \<Rightarrow> spath" where
  \<comment> \<open>\<^verbatim>\<open>pathlib\<close>: the last suffix of the name is replaced, or the suffix is appended when the
      name has none; both are the stem followed by the new suffix.\<close>
  "with_suffix p suffix = butlast p @ [stem p @ suffix]"

definition joinpath :: "spath \<Rightarrow> string \<Rightarrow> spath" where
  \<comment> \<open>The \<^verbatim>\<open>/\<close> operator: an absolute right operand replaces the left one.\<close>
  "joinpath p s = (if s \<noteq> [] \<and> hd s = CHR ''/'' then SPath s else p @ SPath s)"

section \<open>MD5\<close>

text \<open>
  \<^verbatim>\<open>hashlib.md5\<close> (RFC 1321) on a list of bytes, one 64-byte block at a time, on 32-bit
  words.
\<close>

type_synonym md5_state = "32 word \<times> 32 word \<times> 32 word \<times> 32 word"

definition md5_K :: "32 word list" where
  "md5_K =
    [3614090360, 3905402710, 606105819, 3250441966,
     4118548399, 1200080426, 2821735955, 4249261313,
     1770035416, 2336552879, 4294925233, 2304563134,
     1804603682, 4254626195, 2792965006, 1236535329,
     4129170786, 3225465664, 643717713, 3921069994,
     3593408605, 38016083, 3634488961, 3889429448,
     568446438, 3275163606, 4107603335, 1163531501,
     2850285829, 4243563512, 1735328473, 2368359562,
     4294588738, 2272392833, 1839030562, 4259657740,
     2763975236, 1272893353, 4139469664, 3200236656,
     681279174, 3936430074, 3572445317, 76029189,
     3654602809, 3873151461, 530742520, 3299628645,
     4096336452, 1126891415, 2878612391, 4237533241,
     1700485571, 2399980690, 4293915773, 2240044497,
     1873313359, 4264355552, 2734768916, 1309151649,
     4149444226, 3174756917, 718787259, 3951481745]"

definition md5_s :: "nat list" where
  "md5_s =
    [7, 12, 17, 22, 7, 12, 17, 22, 7, 12, 17, 22, 7, 12, 17, 22,
     5, 9, 14, 20, 5, 9, 14, 20, 5, 9, 14, 20, 5, 9, 14, 20,
     4, 11, 16, 23, 4, 11, 16, 23, 4, 11, 16, 23, 4, 11, 16, 23,
     6, 10, 15, 21, 6, 10, 15, 21, 6, 10, 15, 21, 6, 10, 15, 21]"

definition rotl32 :: "32 word \<Rightarrow> nat \<Rightarrow> 32 word" where
  "rotl32 x c = push_bit c x OR drop_bit (32 - c) x"

definition md5_F :: "nat \<Rightarrow> 32 word \<Rightarrow> 32 word \<Rightarrow> 32 word \<Rightarrow> 32 word" where
  "md5_F i B C D =
     (if i < 16 then (B AND C) OR (NOT B AND D)
      else if i < 32 then (D AND B) OR (NOT D AND C)
      else if i < 48 then B XOR C XOR D
      else C XOR (B OR NOT D))"

definition md5_g :: "nat \<Rightarrow> nat" where
  "md5_g i =
     (if i < 16 then i
      else if i < 32 then (5 * i + 1) mod 16
      else if i < 48 then (3 * i + 5) mod 16
      else (7 * i) mod 16)"

fun md5_step :: "32 word list \<Rightarrow> nat \<times> md5_state \<Rightarrow> 32 word \<times> nat \<Rightarrow> nat \<times> md5_state" where
  "md5_step M (i, A, B, C, D) (k, s) =
     (i + 1, D, B + rotl32 (md5_F i B C D + A + k + M ! md5_g i) s, B, C)"

fun words_of_chunk :: "nat list \<Rightarrow> 32 word list" where
  "words_of_chunk (b0 # b1 # b2 # b3 # bs) =
     of_nat (b0 + 256 * b1 + 65536 * b2 + 16777216 * b3) # words_of_chunk bs"
| "words_of_chunk _ = []"

fun md5_add :: "md5_state \<Rightarrow> md5_state \<Rightarrow> md5_state" where
  "md5_add (a0, b0, c0, d0) (A, B, C, D) = (a0 + A, b0 + B, c0 + C, d0 + D)"

definition md5_chunk :: "md5_state \<Rightarrow> nat list \<Rightarrow> md5_state" where
  "md5_chunk h chunk =
     md5_add h (snd (foldl (md5_step (words_of_chunk chunk)) (0, h) (zip md5_K md5_s)))"

function to_bytes_le :: "nat \<Rightarrow> nat \<Rightarrow> nat list" where
  "to_bytes_le n x = (if n = 0 then [] else (x mod 256) # to_bytes_le (n - 1) (x div 256))"
  by pat_completeness auto
termination
  by (relation "measure fst") auto

function zeros :: "nat \<Rightarrow> nat list" where
  "zeros n = (if n = 0 then [] else 0 # zeros (n - 1))"
  by pat_completeness auto
termination
  by (relation "measure id") auto

definition md5_pad :: "nat list \<Rightarrow> nat list" where
  "md5_pad msg =
     msg @ [128] @ zeros ((119 - length msg mod 64) mod 64)
       @ to_bytes_le 8 ((8 * length msg) mod 18446744073709551616)"

function chunks :: "nat list \<Rightarrow> nat list list" where
  "chunks bs = (if bs = [] then [] else take 64 bs # chunks (drop 64 bs))"
  by pat_completeness auto
termination
  by (relation "measure length") auto

fun md5_out :: "md5_state \<Rightarrow> nat list" where
  "md5_out (a, b, c, d) =
     to_bytes_le 4 (unat a) @ to_bytes_le 4 (unat b) @ to_bytes_le 4 (unat c)
       @ to_bytes_le 4 (unat d)"

definition md5 :: "nat list \<Rightarrow> nat list" where
  "md5 msg =
     md5_out (foldl md5_chunk (1732584193, 4023233417, 2562383102, 271733878)
               (chunks (md5_pad msg)))"

definition hex_digit :: "nat \<Rightarrow> char" where
  "hex_digit n = ''0123456789abcdef'' ! n"

definition hexdigest :: "nat list \<Rightarrow> string" where
  "hexdigest bs = concat (map (\<lambda>b. [hex_digit (b div 16), hex_digit (b mod 16)]) bs)"

definition encode :: "string \<Rightarrow> nat list" where
  \<comment> \<open>\<^verbatim>\<open>str.encode()\<close>: a string of the model is already its UTF-8 bytes.\<close>
  "encode s = map of_char s"

declare chunks.simps [simp del] to_bytes_le.simps [simp del] zeros.simps [simp del]

section \<open>File system, child processes and the event log\<close>

text \<open>
  The part of the file system the code looks at: the regular files with their size
  (\<^verbatim>\<open>is_file\<close>, \<^verbatim>\<open>stat().st_size\<close>), the directories made by \<^verbatim>\<open>mkdirp\<close>, and the
  files whose deletion the system refuses. Source paths are regular files or missing.
\<close>

record fsys =
  files :: "spath \<rightharpoonup> nat"
  dirs :: "spath set"
  undeletable :: "spath set"

text \<open>
  What the code does to the outside world, in order: deletions, directory creations,
  child processes (argument list and working directory) and calls of the
  filename-rewrite operation (index path and file list).
\<close>

datatype event =
    EvUnlink spath
  | EvMkdirp spath
  | EvPopen "string list" string
  | EvUpdate spath "spath list"

record world =
  fs :: fsys
  log :: "event list"

definition is_file :: "spath \<Rightarrow> world \<Rightarrow> bool" where
  "is_file p w = (files (fs w) p \<noteq> None)"

definition st_size :: "spath \<Rightarrow> world \<Rightarrow> error + nat" where
  "st_size p w = (case files (fs w) p of None \<Rightarrow> Inl (FileNotFoundError (to_str p)) | Some n \<Rightarrow> Inr n)"

definition unlink :: "spath \<Rightarrow> world \<Rightarrow> (error + unit) \<times> world" where
  \<comment> \<open>\<^verbatim>\<open>Path.unlink()\<close>: an \<^verbatim>\<open>OSError\<close> when the file is missing or may not be deleted.\<close>
  "unlink p w =
     (if files (fs w) p = None \<or> p \<in> undeletable (fs w) then (Inl (OSError (to_str p)), w)
      else (Inr (), w\<lparr>fs := (fs w)\<lparr>files := (files (fs w))(p := None)\<rparr>,
                       log := log w @ [EvUnlink p]\<rparr>))"

fun ancestors :: "spath \<Rightarrow> spath list" where
  "ancestors [] = []"
| "ancestors (c # cs) = [c] # map (\<lambda>p. c # p) (ancestors cs)"

definition mkdirp :: "spath \<Rightarrow> world \<Rightarrow> world" where
  \<comment> \<open>Modelled from the spec: \<^verbatim>\<open>SPath.mkdirp\<close> of \<^verbatim>\<open>vstools\<close>, which makes the folder of the
      path and its parents (spec: ensures the output directory exists).\<close>
  "mkdirp p w =
     w\<lparr>fs := (fs w)\<lparr>dirs := dirs (fs w) \<union> set (ancestors (get_folder p))\<rparr>,
       log := log w @ [EvMkdirp (get_folder p)]\<rparr>"

text \<open>
  A finished child process as \<^verbatim>\<open>subprocess.Popen\<close> presents it: the exit status returned
  by \<^verbatim>\<open>wait()\<close>, and the attributes \<^verbatim>\<open>stdout\<close> and \<^verbatim>\<open>stderr\<close>, which are a stream to read
  only when the call asked for a pipe and \<^verbatim>\<open>None\<close> otherwise.
\<close>

record popen =
  wait :: int
  stdout :: "string option"
  stderr :: "string option"

section \<open>The indexer\<close>

text \<open>
  An \<^verbatim>\<open>ExternalIndexer\<close> instance with its surroundings. The first five fields are the
  attributes set by \<^verbatim>\<open>__init__\<close> and the class variable \<^verbatim>\<open>_default_args\<close>; \<open>get_cmd\<close> and
  \<open>update_filenames\<close> are the abstract methods a subclass supplies. The last three are
  the environment: the answer of \<^verbatim>\<open>tempfile.gettempdir()\<close>, the behaviour of a child
  process (exit status, the text it writes to its standard output and standard error,
  and what it does to the file system), and the position each string takes in a Python
  \<^verbatim>\<open>set\<close> built from a list, which fixes the order in which the set is iterated.
\<close>

datatype out_folder = OFNone | OFFalse | OFStr string | OFPath spath

record indexer =
  bin_path :: spath
  ext :: string
  self_force :: bool
  default_out_folder :: out_folder
  default_args :: "string list"
  get_cmd :: "spath list \<Rightarrow> spath \<Rightarrow> string list"
  update_filenames :: "spath \<Rightarrow> spath list \<Rightarrow> fsys \<Rightarrow> (error + unit) \<times> fsys"
  tempdir :: string
  run_process :: "string list \<Rightarrow> string \<Rightarrow> fsys \<Rightarrow> int \<times> string \<times> string \<times> fsys"
  set_slot :: "string list \<Rightarrow> string \<Rightarrow> nat"

definition index_folder_name :: string where
  "index_folder_name = ''.vssource''"

definition get_joined_names :: "spath list \<Rightarrow> string" where
  "get_joined_names fls = join_with ''_'' (map name fls)"

fun sum_sizes :: "spath list \<Rightarrow> world \<Rightarrow> error + nat" where
  "sum_sizes [] w = Inr 0"
| "sum_sizes (file # fls) w =
     (case st_size file w of
        Inl e \<Rightarrow> Inl e
      | Inr n \<Rightarrow> (case sum_sizes fls w of Inl e \<Rightarrow> Inl e | Inr m \<Rightarrow> Inr (n + m)))"

definition get_videos_hash :: "spath list \<Rightarrow> world \<Rightarrow> error + string" where
  "get_videos_hash fls w =
     (case sum_sizes fls w of
        Inl e \<Rightarrow> Inl e
      | Inr lenght \<Rightarrow>
          if lenght \<ge> 2 ^ 256 then Inl OverflowError
          else Inr (hexdigest (md5 (to_bytes_le 32 lenght @ encode (get_joined_names fls)))))"

definition update_video_filenames ::
    "indexer \<Rightarrow> spath \<Rightarrow> spath list \<Rightarrow> world \<Rightarrow> (error + unit) \<times> world" where
  "update_video_filenames E index_path filepaths w =
     (case update_filenames E index_path filepaths (fs w) of
        (r, fs') \<Rightarrow> (r, w\<lparr>fs := fs', log := log w @ [EvUpdate index_path filepaths]\<rparr>))"

definition Popen :: "indexer \<Rightarrow> string list \<Rightarrow> string \<Rightarrow> world \<Rightarrow> popen \<times> world" where
  \<comment> \<open>\<^verbatim>\<open>subprocess.Popen(args, text=True, encoding='utf-8', shell=True, cwd=cwd)\<close> followed
      by \<^verbatim>\<open>wait()\<close>. The call passes neither \<^verbatim>\<open>stdout=\<close> nor \<^verbatim>\<open>stderr=\<close>, so the child writes
      to the streams it inherits and both attributes of the object are \<^verbatim>\<open>None\<close>.\<close>
  "Popen E args cwd w =
     (case run_process E args cwd (fs w) of
        (status, out, err, fs') \<Rightarrow>
          (\<lparr>wait = status, stdout = None, stderr = None\<rparr>,
           w\<lparr>fs := fs', log := log w @ [EvPopen args cwd]\<rparr>))"

definition is_space :: "char \<Rightarrow> bool" where
  "is_space c = (c \<in> set [CHR '' '', CHR 0x09, CHR 0x0A, CHR 0x0B, CHR 0x0C, CHR 0x0D])"

definition strip :: "string \<Rightarrow> string" where
  "strip s = rev (dropWhile is_space (rev (dropWhile is_space s)))"

definition read_stripped :: "string option \<Rightarrow> string" where
  \<comment> \<open>The two \<^verbatim>\<open>if proc.stderr:\<close> / \<^verbatim>\<open>if proc.stdout:\<close> blocks of \<^verbatim>\<open>_run_index\<close>.\<close>
  "read_stripped stream =
     (case stream of
        None \<Rightarrow> []
      | Some text \<Rightarrow> (if strip text \<noteq> [] then [CHR 0x0A, CHR 0x09] @ strip text else []))"

definition run_index_message :: "indexer \<Rightarrow> string \<Rightarrow> string \<Rightarrow> string" where
  "run_index_message E err out =
     ''There was an error while running the '' @ to_str (bin_path E) @ '' command!: ''
       @ err @ out"

definition priv_run_index ::
    "indexer \<Rightarrow> spath list \<Rightarrow> spath \<Rightarrow> string list \<Rightarrow> world \<Rightarrow> (error + unit) \<times> world" where
  \<comment> \<open>\<^verbatim>\<open>ExternalIndexer._run_index\<close>\<close>
  "priv_run_index E fls output cmd_args w =
     (case Popen E (get_cmd E fls output @ cmd_args @ default_args E)
             (to_str (get_folder output)) (mkdirp output w) of
        (proc, w') \<Rightarrow>
          if wait proc \<noteq> 0 then
            (Inl (CustomRuntimeError
                    (run_index_message E (read_stripped (stderr proc)) (read_stripped (stdout proc)))),
             w')
          else (Inr (), w'))"

fun get_out_folder :: "indexer \<Rightarrow> out_folder \<Rightarrow> spath option \<Rightarrow> spath" where
  "get_out_folder E OFNone (Some file) = get_folder file"
| "get_out_folder E OFNone None = SPath (tempdir E)"
| "get_out_folder E OFFalse file = SPath (tempdir E)"
| "get_out_folder E (OFStr s) file = (if s = [] then SPath (tempdir E) else SPath s)"
| "get_out_folder E (OFPath p) file = p"

definition get_idx_file_path :: "indexer \<Rightarrow> spath \<Rightarrow> spath" where
  "get_idx_file_path E path = with_suffix path (''.'' @ ext E)"

definition get_video_idx_path :: "indexer \<Rightarrow> spath \<Rightarrow> string \<Rightarrow> string \<Rightarrow> spath" where
  "get_video_idx_path E folder file_hash video_name =
     (let vid_name = stem (SPath video_name);
          filename = join_with ''_'' [file_hash, vid_name]
      in get_idx_file_path E (joinpath (joinpath folder index_folder_name) filename))"

definition file_corrupted :: "indexer \<Rightarrow> spath \<Rightarrow> world \<Rightarrow> (error + unit) \<times> world" where
  "file_corrupted E index_path w =
     (if self_force E then
        (case unlink index_path w of
           (Inl e, w') \<Rightarrow>
             (Inl (CustomRuntimeError ''Index file corrupted, tried to delete it and failed.''), w')
         | (Inr u, w') \<Rightarrow> (Inr (), w'))
      else (Inl (CustomRuntimeError ''Index file corrupted! Delete it and retry.''), w))"

definition priv_index ::
    "indexer \<Rightarrow> bool \<Rightarrow> string list \<Rightarrow> spath list \<Rightarrow> spath \<Rightarrow> world \<Rightarrow> (error + unit) \<times> world" where
  \<comment> \<open>The closure \<^verbatim>\<open>_index\<close> of \<^verbatim>\<open>ExternalIndexer.index\<close>, with the variables it captures
      (\<^verbatim>\<open>force\<close>, \<^verbatim>\<open>cmd_args\<close>) as arguments.\<close>
  "priv_index E force cmd_args fls output w =
     (if is_file output w then
        (case st_size output w of
           Inl e \<Rightarrow> (Inl e, w)
         | Inr n \<Rightarrow>
             if n = 0 \<or> force then
               (case unlink output w of
                  (Inl e, w') \<Rightarrow> (Inl e, w')
                | (Inr u, w') \<Rightarrow> priv_run_index E fls output cmd_args w')
             else update_video_filenames E output fls w)
      else priv_run_index E fls output cmd_args w)"

fun index_units ::
    "indexer \<Rightarrow> bool \<Rightarrow> string list \<Rightarrow> (spath \<times> spath) list \<Rightarrow> world \<Rightarrow> (error + unit) \<times> world" where
  "index_units E force cmd_args [] w = (Inr (), w)"
| "index_units E force cmd_args ((file, output) # rest) w =
     (case priv_index E force cmd_args [file] output w of
        (Inl e, w') \<Rightarrow> (Inl e, w')
      | (Inr u, w') \<Rightarrow> index_units E force cmd_args rest w')"

definition set_to_list :: "indexer \<Rightarrow> string list \<Rightarrow> string list" where
  \<comment> \<open>\<^verbatim>\<open>list(set(xs))\<close>: the distinct elements, in the order of their slots.\<close>
  "set_to_list E xs = sort_key (set_slot E xs) (remdups xs)"

definition unique_folders :: "indexer \<Rightarrow> spath list \<Rightarrow> string list" where
  "unique_folders E fls = set_to_list E (map (\<lambda>f. to_str (get_folder f)) fls)"

definition index_planned ::
    "indexer \<Rightarrow> spath \<Rightarrow> spath list \<Rightarrow> bool \<Rightarrow> bool \<Rightarrow> string list \<Rightarrow> world
      \<Rightarrow> (error + spath list) \<times> world" where
  \<comment> \<open>\<^verbatim>\<open>ExternalIndexer.index\<close> from \<^verbatim>\<open>hash_str = ...\<close> on: \<open>fls\<close> is the list after
      \<^verbatim>\<open>files = list(sorted(set(files)))\<close>.\<close>
  "index_planned E dest_folder fls force split_files cmd_args w =
     (case get_videos_hash fls w of
        Inl e \<Rightarrow> (Inl e, w)
      | Inr hash_str \<Rightarrow>
          if \<not> split_files then
            (let output = get_video_idx_path E dest_folder hash_str
                            (if length fls > 1 then ''JOINED'' else ''SINGLE'')
             in case priv_index E force cmd_args fls output w of
                  (Inl e, w') \<Rightarrow> (Inl e, w')
                | (Inr u, w') \<Rightarrow> (Inr [output], w'))
          else
            (let outputs = map (\<lambda>file. get_video_idx_path E dest_folder hash_str (name file)) fls
             in case index_units E force cmd_args (zip fls outputs) w of
                  (Inl e, w') \<Rightarrow> (Inl e, w')
                | (Inr u, w') \<Rightarrow> (Inr outputs, w')))"

definition index_single ::
    "indexer \<Rightarrow> spath list \<Rightarrow> bool \<Rightarrow> bool \<Rightarrow> out_folder \<Rightarrow> string list \<Rightarrow> world
      \<Rightarrow> (error + spath list) \<times> world" where
  \<comment> \<open>\<^verbatim>\<open>ExternalIndexer.index\<close> from \<^verbatim>\<open>dest_folder = ...\<close> on; \<^verbatim>\<open>files[0]\<close> raises on an
      empty list.\<close>
  "index_single E fls force split_files output_folder cmd_args w =
     (case fls of
        [] \<Rightarrow> (Inl IndexError, w)
      | file0 # _ \<Rightarrow>
          index_planned E (get_out_folder E output_folder (Some file0)) (sort (remdups fls))
            force split_files cmd_args w)"

function index ::
    "indexer \<Rightarrow> spath list \<Rightarrow> bool \<Rightarrow> bool \<Rightarrow> out_folder \<Rightarrow> string list \<Rightarrow> world
      \<Rightarrow> (error + spath list) \<times> world"
  and index_folders ::
    "indexer \<Rightarrow> spath list \<Rightarrow> bool \<Rightarrow> bool \<Rightarrow> out_folder \<Rightarrow> string list \<Rightarrow> world
      \<Rightarrow> (error + spath list) \<times> world" where
  "index E fls force split_files output_folder cmd_args w =
     (if length (unique_folders E fls) > 1 then
        index_folders E fls force split_files output_folder (unique_folders E fls) w
      else index_single E fls force split_files output_folder cmd_args w)"
| "index_folders E fls force split_files output_folder [] w = (Inr [], w)"
| "index_folders E fls force split_files output_folder (folder # rest) w =
     (case index E [f \<leftarrow> fls. to_str (get_folder f) = folder] force split_files output_folder [] w of
        (Inl e, w') \<Rightarrow> (Inl e, w')
      | (Inr s, w') \<Rightarrow>
          (case index_folders E fls force split_files output_folder rest w' of
             (Inl e, w'') \<Rightarrow> (Inl e, w'')
           | (Inr cs, w'') \<Rightarrow> (Inr (s @ cs), w'')))"
  by pat_completeness auto

termination
proof (relation "measures
     [\<lambda>x. case x of
             Inl (E, fls, r) \<Rightarrow> (if length (unique_folders E fls) > 1 then 2 else 0)
           | Inr r \<Rightarrow> 1,
      \<lambda>x. case x of
             Inl r \<Rightarrow> 0
           | Inr (E, fls, force, split_files, output_folder, folders, w) \<Rightarrow> length folders]")
  show "wf (measures
     [\<lambda>x. case x of
             Inl (E, fls, r) \<Rightarrow> (if length (unique_folders E fls) > 1 then 2 else 0)
           | Inr r \<Rightarrow> (1::nat),
      \<lambda>x. case x of
             Inl r \<Rightarrow> 0
           | Inr (E, fls, force, split_files, output_folder, folders, w) \<Rightarrow> length folders])"
    by simp
next
  fix E :: indexer and fls :: "spath list" and folder :: string
  have "set (map (\<lambda>f. to_str (get_folder f)) [f \<leftarrow> fls. to_str (get_folder f) = folder])
          \<subseteq> {folder}"
    by auto
  then have "card (set (map (\<lambda>f. to_str (get_folder f)) [f \<leftarrow> fls. to_str (get_folder f) = folder]))
          \<le> card {folder}"
    by (intro card_mono) auto
  then have one: "\<not> 1 < length (unique_folders E [f \<leftarrow> fls. to_str (get_folder f) = folder])"
    by (simp add: unique_folders_def set_to_list_def length_remdups_card_conv)
  fix force split_files :: bool and output_folder :: out_folder and rest :: "string list"
    and w :: world
  show "(Inl (E, [f \<leftarrow> fls. to_str (get_folder f) = folder], force, split_files, output_folder, [], w),
         Inr (E, fls, force, split_files, output_folder, folder # rest, w))
        \<in> measures
     [\<lambda>x. case x of
             Inl (E, fls, r) \<Rightarrow> (if length (unique_folders E fls) > 1 then 2 else 0)
           | Inr r \<Rightarrow> 1,
      \<lambda>x. case x of
             Inl r \<Rightarrow> 0
           | Inr (E, fls, force, split_files, output_folder, folders, w) \<Rightarrow> length folders]"
    using one by simp
qed simp_all

declare index.simps [simp del]

section \<open>Notions used to state the properties\<close>

text \<open>
  A sequence of calls run one after the other on the world the previous one left, the
  first error ending the run, and the lists they return appended: the list comprehension
  over the per-folder calls of \<^verbatim>\<open>index\<close>.
\<close>

fun flatten_calls ::
    "(world \<Rightarrow> (error + 'a list) \<times> world) list \<Rightarrow> world \<Rightarrow> (error + 'a list) \<times> world" where
  "flatten_calls [] w = (Inr [], w)"
| "flatten_calls (c # cs) w =
     (case c w of
        (Inl e, w') \<Rightarrow> (Inl e, w')
      | (Inr s, w') \<Rightarrow>
          (case flatten_calls cs w' of
             (Inl e, w'') \<Rightarrow> (Inl e, w'')
           | (Inr t, w'') \<Rightarrow> (Inr (s @ t), w'')))"

fun is_popen :: "event \<Rightarrow> bool" where
  "is_popen (EvPopen args cwd) = True"
| "is_popen ev = False"

definition popen_count :: "world \<Rightarrow> nat" where
  \<comment> \<open>The number of child processes started so far.\<close>
  "popen_count w = length (filter is_popen (log w))"

section \<open>A concrete scenario\<close>

text \<open>
  Three source files in two folders, and an indexer whose tool writes a one-byte index
  at the path given after \<^verbatim>\<open>-o\<close> and exits with status 0. The set of folder names is
  iterated with \<^verbatim>\<open>/d2\<close> first, which is one of the orders a Python \<^verbatim>\<open>set\<close> of strings can
  take.
\<close>

definition file_a :: spath where "file_a = [''/'', ''d1'', ''a.mkv'']"
definition file_b :: spath where "file_b = [''/'', ''d1'', ''b.mkv'']"
definition file_c :: spath where "file_c = [''/'', ''d2'', ''c.mkv'']"

definition idx_a :: spath where
  "idx_a = [''/'', ''d1'', ''.vssource'', ''22c5396db8d851442a872d62e9e5d4c7_SINGLE.idx'']"

definition ex_fs :: fsys where
  "ex_fs = \<lparr>files = [file_a \<mapsto> 10, file_b \<mapsto> 20, file_c \<mapsto> 30],
            dirs = {[''/''], [''/'', ''d1''], [''/'', ''d2'']},
            undeletable = {}\<rparr>"

definition ex_world :: world where
  "ex_world = \<lparr>fs = ex_fs, log = []\<rparr>"

definition ex_tool :: "string list \<Rightarrow> string \<Rightarrow> fsys \<Rightarrow> int \<times> string \<times> string \<times> fsys" where
  "ex_tool args cwd s =
     (case args of
        prog # opt # out # srcs \<Rightarrow> (0, [], [], s\<lparr>files := (files s)(SPath out \<mapsto> 1)\<rparr>)
      | _ \<Rightarrow> (2, [], ''usage'', s))"

definition ex_indexer :: indexer where
  "ex_indexer =
     \<lparr>bin_path = [''vsindex''], ext = ''idx'', self_force = True, default_out_folder = OFNone,
      default_args = [''-q''],
      get_cmd = (\<lambda>fls output. [''vsindex'', ''-o'', to_str output] @ map to_str fls),
      update_filenames = (\<lambda>index_path filepaths s. (Inr (), s)),
      tempdir = ''/tmp'',
      run_process = ex_tool,
      set_slot = (\<lambda>xs s. if s = ''/d2'' then 0 else 1)\<rparr>"

definition world_after_a :: world where
  \<comment> \<open>The world after \<^verbatim>\<open>index([file_a])\<close> has run in \<open>ex_world\<close>.\<close>
  "world_after_a =
     \<lparr>fs = ex_fs\<lparr>files := (files ex_fs)(idx_a \<mapsto> 1),
                  dirs := dirs ex_fs \<union> {[''/''], [''/'', ''d1''], [''/'', ''d1'', ''.vssource'']}\<rparr>,
      log = [EvMkdirp [''/'', ''d1'', ''.vssource''],
             EvPopen [''vsindex'', ''-o'',
                      ''/d1/.vssource/22c5396db8d851442a872d62e9e5d4c7_SINGLE.idx'',
                      ''/d1/a.mkv'', ''-q''] ''/d1/.vssource'']\<rparr>"

definition world_with_index :: "nat \<Rightarrow> world" where
  \<comment> \<open>\<open>ex_world\<close> with an index file of the given size already at \<open>idx_a\<close>.\<close>
  "world_with_index n = ex_world\<lparr>fs := ex_fs\<lparr>files := (files ex_fs)(idx_a \<mapsto> n)\<rparr>\<rparr>"

definition failing_tool :: "string list \<Rightarrow> string \<Rightarrow> fsys \<Rightarrow> int \<times> string \<times> string \<times> fsys" where
  \<comment> \<open>A tool that writes to both of its streams and exits with status 1.\<close>
  "failing_tool args cwd s = (1, ''parsing a.mkv'', ''unsupported container'', s)"

section \<open>Auxiliary facts\<close>

lemma unlink_ok:
  "files (fs w) p = Some n \<Longrightarrow> p \<notin> undeletable (fs w) \<Longrightarrow>
   unlink p w = (Inr (), w\<lparr>fs := (fs w)\<lparr>files := (files (fs w))(p := None)\<rparr>, log := log w @ [EvUnlink p]\<rparr>)"
  by (simp add: unlink_def)

lemma log_priv_run_index:
  "log (snd (priv_run_index E fls output cmd_args w)) =
     log w @ [EvMkdirp (get_folder output),
              EvPopen (get_cmd E fls output @ cmd_args @ default_args E) (to_str (get_folder output))]"
  by (simp add: priv_run_index_def Popen_def mkdirp_def case_prod_beta)

lemma sort_remdups_set: "set xs = set ys \<Longrightarrow> sort (remdups xs) = sort (remdups ys)"
  by (metis sorted_list_of_set_sort_remdups)

lemma same_folder_single:
  assumes "\<forall>f\<in>set fls. get_folder f = d"
  shows "\<not> 1 < length (unique_folders E fls)"
proof -
  have "(\<lambda>f. to_str (get_folder f)) ` set fls \<subseteq> {to_str d}"
    using assms by auto
  then have "card ((\<lambda>f. to_str (get_folder f)) ` set fls) \<le> card {to_str d}"
    by (intro card_mono) auto
  then show ?thesis
    by (simp add: unique_folders_def set_to_list_def length_remdups_card_conv)
qed

lemma get_out_folder_same_parent:
  "get_folder f = get_folder g \<Longrightarrow> get_out_folder E outf (Some f) = get_out_folder E outf (Some g)"
  by (cases outf) simp_all

lemma index_single_hd:
  "fls \<noteq> [] \<Longrightarrow> index_single E fls force split_files outf cmd_args w =
     index_planned E (get_out_folder E outf (Some (hd fls))) (sort (remdups fls))
       force split_files cmd_args w"
  by (cases fls) (simp_all add: index_single_def)

lemma index_folders_flatten:
  "index_folders E fls force split_files outf folders w =
     flatten_calls
       (map (\<lambda>folder. index E [f \<leftarrow> fls. to_str (get_folder f) = folder] force split_files outf [])
          folders) w"
  by (induction folders arbitrary: w) (auto split: prod.splits sum.splits)

lemma sum_sizes_cong:
  "\<forall>f\<in>set fls. files (fs w1) f = files (fs w) f \<Longrightarrow> sum_sizes fls w1 = sum_sizes fls w"
  by (induction fls) (auto simp: st_size_def split: option.splits sum.splits)

lemma get_videos_hash_cong:
  "\<forall>f\<in>set fls. files (fs w1) f = files (fs w) f \<Longrightarrow> get_videos_hash fls w1 = get_videos_hash fls w"
proof -
  assume "\<forall>f\<in>set fls. files (fs w1) f = files (fs w) f"
  then have "sum_sizes fls w1 = sum_sizes fls w"
    by (rule sum_sizes_cong)
  then show ?thesis
    by (simp only: get_videos_hash_def)
qed

lemma popen_count_append [simp]:
  "popen_count (w\<lparr>log := log w @ evs\<rparr>) = popen_count w + length (filter is_popen evs)"
  by (simp add: popen_count_def)

lemma priv_run_index_ok:
  assumes "priv_run_index E fls output cmd_args w = (Inr u, w1)"
  shows "\<exists>out err. run_process E (get_cmd E fls output @ cmd_args @ default_args E)
            (to_str (get_folder output)) (fs (mkdirp output w)) = (0, out, err, fs w1)"
    and "popen_count w1 = popen_count w + 1"
  using assms
  by (auto simp: priv_run_index_def Popen_def mkdirp_def popen_count_def
      split: prod.splits if_splits)

lemma priv_index_first:
  assumes run: "priv_index E False cmd_args fls output w = (Inr u, w1)"
    and tool: "\<And>cwd s out err s'.
        run_process E (get_cmd E fls output @ cmd_args @ default_args E) cwd s = (0, out, err, s')
        \<Longrightarrow> \<exists>n. files s' output = Some n \<and> n \<noteq> 0"
    and upd: "\<And>s r s'. update_filenames E output fls s = (r, s')
        \<Longrightarrow> \<exists>n. files s output = Some n \<and> n \<noteq> 0
        \<Longrightarrow> r = Inr () \<and> (\<exists>n. files s' output = Some n \<and> n \<noteq> 0)"
  shows "(\<exists>n. files (fs w1) output = Some n \<and> n \<noteq> 0) \<and> popen_count w1 \<le> popen_count w + 1"
proof (cases "files (fs w) output")
  case None
  then have "priv_run_index E fls output cmd_args w = (Inr u, w1)"
    using run by (simp add: priv_index_def is_file_def)
  from priv_run_index_ok [OF this] tool show ?thesis
    by fastforce
next
  case (Some n)
  show ?thesis
  proof (cases "n = 0")
    case True
    then obtain w' where "unlink output w = (Inr (), w')"
      and r: "priv_run_index E fls output cmd_args w' = (Inr u, w1)"
      using run Some
      by (auto simp: priv_index_def is_file_def st_size_def split: prod.splits sum.splits)
    then have "popen_count w' = popen_count w"
      by (auto simp: unlink_def popen_count_def split: if_splits)
    with priv_run_index_ok [OF r] tool show ?thesis
      by fastforce
  next
    case False
    then have "update_video_filenames E output fls w = (Inr u, w1)"
      using run Some by (simp add: priv_index_def is_file_def st_size_def)
    then obtain s' where u: "update_filenames E output fls (fs w) = (Inr u, s')"
      and w1: "w1 = w\<lparr>fs := s', log := log w @ [EvUpdate output fls]\<rparr>"
      by (auto simp: update_video_filenames_def split: prod.splits)
    from upd [OF u] Some False have "\<exists>n. files s' output = Some n \<and> n \<noteq> 0"
      by simp
    then show ?thesis
      by (simp add: w1 popen_count_def)
  qed
qed

lemma priv_index_reuse:
  assumes "files (fs w) output = Some n" and "n \<noteq> 0"
    and "update_filenames E output fls (fs w) = (Inr (), s')"
  shows "priv_index E False cmd_args fls output w =
           (Inr (), w\<lparr>fs := s', log := log w @ [EvUpdate output fls]\<rparr>)"
  using assms by (simp add: priv_index_def is_file_def st_size_def update_video_filenames_def)

lemma index_planned_joined:
  assumes "index_planned E dest fls force False cmd_args w = (Inr ps, w1)"
  shows "\<exists>h. get_videos_hash fls w = Inr h
           \<and> ps = [get_video_idx_path E dest h (if length fls > 1 then ''JOINED'' else ''SINGLE'')]
           \<and> priv_index E force cmd_args fls (hd ps) w = (Inr (), w1)"
  using assms
  by (auto simp: index_planned_def Let_def split: sum.splits prod.splits)

section \<open>The scenario, evaluated\<close>

lemmas md5_eval = md5_def md5_pad_def md5_chunk_def md5_K_def md5_s_def rotl32_def
  md5_F_def md5_g_def hexdigest_def hex_digit_def to_bytes_le.simps zeros.simps chunks.simps
  encode_def

lemma md5_a:
  "hexdigest (md5 (to_bytes_le 32 10 @ encode ''a.mkv'')) = ''22c5396db8d851442a872d62e9e5d4c7''"
  by (simp add: md5_eval)

lemma md5_ab:
  "hexdigest (md5 (to_bytes_le 32 30 @ encode ''a.mkv_b.mkv'')) = ''a8c714da8b4ab0a1fc3b6de3ac472a80''"
  by (simp add: md5_eval)

lemma md5_c:
  "hexdigest (md5 (to_bytes_le 32 30 @ encode ''c.mkv'')) = ''2e7448edaf03d9a2d9a6ac1f46f6c3fe''"
  by (simp add: md5_eval)

lemmas scenario = file_a_def file_b_def file_c_def ex_fs_def ex_world_def ex_indexer_def ex_tool_def

lemmas path_eval = SPath_def get_folder_def name_def stem_def stem_of_def with_suffix_def
  joinpath_def get_idx_file_path_def get_video_idx_path_def index_folder_name_def Let_def

lemma hash_a: "get_videos_hash [file_a] ex_world = Inr ''22c5396db8d851442a872d62e9e5d4c7''"
  by (simp add: get_videos_hash_def st_size_def get_joined_names_def name_def scenario md5_a)

lemma hash_ab: "get_videos_hash [file_a, file_b] ex_world = Inr ''a8c714da8b4ab0a1fc3b6de3ac472a80''"
  by (simp add: get_videos_hash_def st_size_def get_joined_names_def name_def scenario md5_ab)

lemma uf_ab: "unique_folders ex_indexer [file_a, file_b] = [''/d1'']"
  by (simp add: unique_folders_def set_to_list_def scenario get_folder_def)

lemma uf_ac: "unique_folders ex_indexer [file_a, file_c] = [''/d2'', ''/d1'']"
  by (simp add: unique_folders_def set_to_list_def scenario get_folder_def)

lemma sort_ab: "sort (remdups [file_a, file_b]) = [file_a, file_b]"
  by (simp add: file_a_def file_b_def)

lemmas run_eval = priv_index_def priv_run_index_def Popen_def mkdirp_def is_file_def st_size_def
  unlink_def update_video_filenames_def

lemma uf_a: "unique_folders ex_indexer [file_a] = [''/d1'']"
  by (simp add: unique_folders_def set_to_list_def scenario get_folder_def)

lemma hash_c: "get_videos_hash [file_c] ex_world = Inr ''2e7448edaf03d9a2d9a6ac1f46f6c3fe''"
  by (simp add: get_videos_hash_def st_size_def get_joined_names_def name_def scenario md5_c)

lemma idx_path_a:
  "get_video_idx_path ex_indexer [''/'', ''d1''] ''22c5396db8d851442a872d62e9e5d4c7'' ''SINGLE'' = idx_a"
  by (simp add: path_eval ex_indexer_def idx_a_def)

lemma run_joined_a:
  "index ex_indexer [file_a] False False OFNone [] ex_world = (Inr [idx_a], world_after_a)"
  apply (simp add: index.simps uf_a index_single_def index_planned_def hash_a)
  apply (simp add: path_eval scenario run_eval idx_a_def world_after_a_def)
  done

lemma run_split_ab:
  "fst (index ex_indexer [file_a, file_b] False True OFNone [] ex_world) =
     Inr [[''/'', ''d1'', ''.vssource'', ''a8c714da8b4ab0a1fc3b6de3ac472a80_a.idx''],
          [''/'', ''d1'', ''.vssource'', ''a8c714da8b4ab0a1fc3b6de3ac472a80_b.idx'']]"
  apply (simp add: index.simps uf_ab index_single_def sort_ab index_planned_def hash_ab)
  apply (simp add: path_eval scenario run_eval)
  done

lemma filter_d1: "[f \<leftarrow> [file_a, file_c]. to_str (get_folder f) = ''/d1''] = [file_a]"
  by (simp add: file_a_def file_c_def get_folder_def)

lemma filter_d2: "[f \<leftarrow> [file_a, file_c]. to_str (get_folder f) = ''/d2''] = [file_c]"
  by (simp add: file_a_def file_c_def get_folder_def)

lemma uf_c: "unique_folders ex_indexer [file_c] = [''/d2'']"
  by (simp add: unique_folders_def set_to_list_def scenario get_folder_def)

lemma run_ac_calls: "index ex_indexer [file_a, file_c] False False OFNone [] ex_world =
   flatten_calls [index ex_indexer [file_c] False False OFNone [], index ex_indexer [file_a] False False OFNone []] ex_world"
  by (simp only: index.simps [of ex_indexer "[file_a, file_c]"] uf_ac index_folders_flatten filter_d1 filter_d2 list.map  list.size, simp)

lemma run_joined_c:
  "index ex_indexer [file_c] False False OFNone [] ex_world =
     (Inr [[''/'', ''d2'', ''.vssource'', ''2e7448edaf03d9a2d9a6ac1f46f6c3fe_SINGLE.idx'']],
      \<lparr>fs = ex_fs\<lparr>files := (files ex_fs)
                     ([''/'', ''d2'', ''.vssource'', ''2e7448edaf03d9a2d9a6ac1f46f6c3fe_SINGLE.idx''] \<mapsto> 1),
                   dirs := {[''/''], [''/'', ''d2''], [''/'', ''d2'', ''.vssource'']} \<union> dirs ex_fs\<rparr>,
       log = [EvMkdirp [''/'', ''d2'', ''.vssource''],
              EvPopen [''vsindex'', ''-o'',
                       ''/d2/.vssource/2e7448edaf03d9a2d9a6ac1f46f6c3fe_SINGLE.idx'',
                       ''/d2/c.mkv'', ''-q''] ''/d2/.vssource'']\<rparr>)"
  apply (simp add: index.simps uf_c index_single_def index_planned_def hash_c)
  apply (simp add: path_eval scenario run_eval)
  done

lemma hash_a_any:
  "files (fs w) [''/'', ''d1'', ''a.mkv''] = Some 10 \<Longrightarrow>
   get_videos_hash [[''/'', ''d1'', ''a.mkv'']] w = Inr ''22c5396db8d851442a872d62e9e5d4c7''"
  by (simp add: get_videos_hash_def st_size_def get_joined_names_def name_def md5_a)

lemma run_a_after_c:
  "fst (index ex_indexer [file_a] False False OFNone []
     \<lparr>fs = ex_fs\<lparr>files := (files ex_fs)
                     ([''/'', ''d2'', ''.vssource'', ''2e7448edaf03d9a2d9a6ac1f46f6c3fe_SINGLE.idx''] \<mapsto> 1),
                   dirs := {[''/''], [''/'', ''d2''], [''/'', ''d2'', ''.vssource'']} \<union> dirs ex_fs\<rparr>,
       log = [EvMkdirp [''/'', ''d2'', ''.vssource''],
              EvPopen [''vsindex'', ''-o'',
                       ''/d2/.vssource/2e7448edaf03d9a2d9a6ac1f46f6c3fe_SINGLE.idx'',
                       ''/d2/c.mkv'', ''-q''] ''/d2/.vssource'']\<rparr>)
   = Inr [idx_a]"
  apply (simp add: index.simps uf_a)
  apply (simp add: index_single_def index_planned_def hash_a_any path_eval scenario run_eval idx_a_def)
  done

lemma run_joined_ac:
  "fst (index ex_indexer [file_a, file_c] False False OFNone [] ex_world) =
     Inr [[''/'', ''d2'', ''.vssource'', ''2e7448edaf03d9a2d9a6ac1f46f6c3fe_SINGLE.idx''],
          [''/'', ''d1'', ''.vssource'', ''22c5396db8d851442a872d62e9e5d4c7_SINGLE.idx'']]"
proof -
  obtain r w2 where r: "index ex_indexer [file_a] False False OFNone []
     \<lparr>fs = ex_fs\<lparr>files := (files ex_fs)
                     ([''/'', ''d2'', ''.vssource'', ''2e7448edaf03d9a2d9a6ac1f46f6c3fe_SINGLE.idx''] \<mapsto> 1),
                   dirs := {[''/''], [''/'', ''d2''], [''/'', ''d2'', ''.vssource'']} \<union> dirs ex_fs\<rparr>,
       log = [EvMkdirp [''/'', ''d2'', ''.vssource''],
              EvPopen [''vsindex'', ''-o'',
                       ''/d2/.vssource/2e7448edaf03d9a2d9a6ac1f46f6c3fe_SINGLE.idx'',
                       ''/d2/c.mkv'', ''-q''] ''/d2/.vssource'']\<rparr> = (r, w2)"
    by (rule prod.exhaust)
  with run_a_after_c have "r = Inr [idx_a]"
    by simp
  with r show ?thesis
    by (simp only: run_ac_calls flatten_calls.simps run_joined_c) (simp add: idx_a_def)
qed

section \<open>The claims\<close>

subsection \<open>C1: split mode\<close>

text \<open>
  Claim C1 says that \<^verbatim>\<open>index([a, b], split_files=True)\<close> on two files of one folder
  returns one path per file and that the content identity in each path is computed from
  that file alone. The first half holds. The second does not: \<^verbatim>\<open>hash_str\<close> is computed
  once, before the split, from the whole deduplicated and sorted list, and every output
  path of the call carries it. What holds is this: whenever a split call on files of one
  folder returns, it returns one path per distinct file, in sorted order, each made of
  the destination folder, the identity of the whole set and the stem of that file's
  name.
\<close>

theorem split_paths_share_identity:
  assumes "\<forall>f\<in>set fls. get_folder f = d"
    and "index E fls force True outf cmd_args w = (Inr ps, w')"
  shows "\<exists>h. get_videos_hash (sort (remdups fls)) w = Inr h
           \<and> ps = map (\<lambda>file. get_video_idx_path E (get_out_folder E outf (Some (hd fls))) h (name file))
                    (sort (remdups fls))"
proof -
  have "\<not> 1 < length (unique_folders E fls)"
    using assms(1) by (rule same_folder_single)
  then have *: "index_single E fls force True outf cmd_args w = (Inr ps, w')"
    using assms(2) by (simp add: index.simps)
  then have "fls \<noteq> []"
    by (auto simp: index_single_def)
  with * show ?thesis
    by (auto simp: index_single_hd index_planned_def Let_def split: sum.splits prod.splits)
qed

text \<open>
  In the scenario the two paths carry \<^verbatim>\<open>a8c7...\<close>, the identity of the pair (total size
  30, names \<^verbatim>\<open>a.mkv_b.mkv\<close>), while the identity of \<^verbatim>\<open>a.mkv\<close> alone is \<^verbatim>\<open>22c5...\<close>.
\<close>

theorem split_paths_share_identity_witness:
  "get_folder file_a = [''/'', ''d1''] \<and> get_folder file_b = [''/'', ''d1'']
   \<and> (\<exists>h. get_videos_hash (sort (remdups [file_a, file_b])) ex_world = Inr h
          \<and> [[''/'', ''d1'', ''.vssource'', ''a8c714da8b4ab0a1fc3b6de3ac472a80_a.idx''],
              [''/'', ''d1'', ''.vssource'', ''a8c714da8b4ab0a1fc3b6de3ac472a80_b.idx'']]
             = map (\<lambda>file. get_video_idx_path ex_indexer
                             (get_out_folder ex_indexer OFNone (Some (hd [file_a, file_b]))) h (name file))
                 (sort (remdups [file_a, file_b])))"
proof -
  have f: "\<forall>f\<in>set [file_a, file_b]. get_folder f = [''/'', ''d1'']"
    by (simp add: file_a_def file_b_def get_folder_def)
  have r: "index ex_indexer [file_a, file_b] False True OFNone [] ex_world =
      (Inr [[''/'', ''d1'', ''.vssource'', ''a8c714da8b4ab0a1fc3b6de3ac472a80_a.idx''],
            [''/'', ''d1'', ''.vssource'', ''a8c714da8b4ab0a1fc3b6de3ac472a80_b.idx'']],
       snd (index ex_indexer [file_a, file_b] False True OFNone [] ex_world))"
    using run_split_ab by (simp add: prod_eq_iff)
  from split_paths_share_identity [OF f r] f show ?thesis
    by simp
qed

theorem split_identity_counterexample:
  "fst (index ex_indexer [file_a, file_b] False True OFNone [] ex_world) =
     Inr [[''/'', ''d1'', ''.vssource'', ''a8c714da8b4ab0a1fc3b6de3ac472a80_a.idx''],
          [''/'', ''d1'', ''.vssource'', ''a8c714da8b4ab0a1fc3b6de3ac472a80_b.idx'']]
   \<and> get_videos_hash [file_a] ex_world = Inr ''22c5396db8d851442a872d62e9e5d4c7''
   \<and> get_videos_hash [file_a, file_b] ex_world = Inr ''a8c714da8b4ab0a1fc3b6de3ac472a80''"
  by (simp only: run_split_ab hash_a hash_ab simp_thms)

subsection \<open>C2: files of several folders\<close>

text \<open>
  Claim C2 says that a batch spanning several folders is processed by one recursive call
  per folder and that the results are concatenated in the order in which the folders
  first appear in the input. The calls and the concatenation are as claimed, and each
  call receives the files of its folder in input order; the order of the folders is not
  the order of first appearance but the iteration order of the Python \<^verbatim>\<open>set\<close> of folder
  names, which is some enumeration without repetition of the folders present.
\<close>

theorem multi_folder_order:
  assumes "1 < length (unique_folders E fls)"
  shows "index E fls force split_files outf cmd_args w =
           flatten_calls
             (map (\<lambda>folder. index E [f \<leftarrow> fls. to_str (get_folder f) = folder] force split_files outf [])
                (unique_folders E fls)) w
         \<and> distinct (unique_folders E fls)
         \<and> set (unique_folders E fls) = (\<lambda>f. to_str (get_folder f)) ` set fls"
  using assms
  by (simp add: index.simps index_folders_flatten unique_folders_def set_to_list_def)

text \<open>
  In the scenario the set is iterated with \<^verbatim>\<open>/d2\<close> first: for the input \<^verbatim>\<open>/d1/a.mkv\<close>,
  \<^verbatim>\<open>/d2/c.mkv\<close> the index of \<^verbatim>\<open>/d2\<close> comes first in the result.
\<close>

theorem multi_folder_order_witness:
  "1 < length (unique_folders ex_indexer [file_a, file_c])
   \<and> index ex_indexer [file_a, file_c] False False OFNone [] ex_world =
       flatten_calls
         (map (\<lambda>folder. index ex_indexer [f \<leftarrow> [file_a, file_c]. to_str (get_folder f) = folder]
                           False False OFNone [])
            (unique_folders ex_indexer [file_a, file_c])) ex_world
   \<and> unique_folders ex_indexer [file_a, file_c] = [''/d2'', ''/d1'']"
proof -
  have h: "1 < length (unique_folders ex_indexer [file_a, file_c])"
    by (simp add: uf_ac)
  from multi_folder_order [OF h, of False False OFNone "[]" ex_world] h show ?thesis
    by (simp add: uf_ac)
qed

theorem multi_folder_order_counterexample:
  "fst (index ex_indexer [file_a, file_c] False False OFNone [] ex_world) =
     Inr [[''/'', ''d2'', ''.vssource'', ''2e7448edaf03d9a2d9a6ac1f46f6c3fe_SINGLE.idx''],
          [''/'', ''d1'', ''.vssource'', ''22c5396db8d851442a872d62e9e5d4c7_SINGLE.idx'']]
   \<and> get_folder file_a = [''/'', ''d1''] \<and> get_folder file_c = [''/'', ''d2'']"
  by (simp only: run_joined_ac simp_thms) (simp add: file_a_def file_c_def get_folder_def)

subsection \<open>C3: a failing tool\<close>

text \<open>
  Claim C3 says that a non-zero exit status makes \<^verbatim>\<open>_run_index\<close> raise an error whose
  message carries the trimmed standard output and standard error of the process.
  \<^verbatim>\<open>_run_index\<close> does read and strip \<^verbatim>\<open>proc.stderr\<close> and \<^verbatim>\<open>proc.stdout\<close>, but it starts the
  process without a pipe for either, so both attributes are \<^verbatim>\<open>None\<close> and the message ends
  after the colon. Here a tool that writes to both streams and exits with status 1
  yields a message with neither text.
\<close>

theorem run_index_failure_message:
  "fst (priv_run_index (ex_indexer\<lparr>run_process := failing_tool\<rparr>) [file_a] idx_a [] ex_world)
     = Inl (CustomRuntimeError ''There was an error while running the vsindex command!: '')
   \<and> failing_tool [] [] ex_fs = (1, ''parsing a.mkv'', ''unsupported container'', ex_fs)"
  by (simp add: priv_run_index_def Popen_def failing_tool_def ex_indexer_def run_index_message_def
      read_stripped_def)

subsection \<open>C4: a corrupted index\<close>

text \<open>
  Claim C4: when an index file is reported corrupted, an indexer in force mode deletes
  it, and raises the deletion-failed error exactly when the deletion fails (the file is
  missing or may not be deleted), leaving the world as it was; an indexer not in force
  mode raises the corrupted-index error and leaves the world, the file included,
  untouched.
\<close>

theorem file_corrupted_policy:
  "(self_force E \<and> is_file p w \<and> p \<notin> undeletable (fs w) \<longrightarrow>
      fst (file_corrupted E p w) = Inr () \<and> \<not> is_file p (snd (file_corrupted E p w)))
   \<and> (self_force E \<and> \<not> (is_file p w \<and> p \<notin> undeletable (fs w)) \<longrightarrow>
        file_corrupted E p w =
          (Inl (CustomRuntimeError ''Index file corrupted, tried to delete it and failed.''), w))
   \<and> (\<not> self_force E \<longrightarrow>
        file_corrupted E p w =
          (Inl (CustomRuntimeError ''Index file corrupted! Delete it and retry.''), w))"
  by (auto simp: file_corrupted_def unlink_def is_file_def)

theorem file_corrupted_policy_witness:
  "fst (file_corrupted ex_indexer file_a ex_world) = Inr ()
   \<and> \<not> is_file file_a (snd (file_corrupted ex_indexer file_a ex_world))
   \<and> file_corrupted ex_indexer file_a (ex_world\<lparr>fs := ex_fs\<lparr>undeletable := {file_a}\<rparr>\<rparr>) =
       (Inl (CustomRuntimeError ''Index file corrupted, tried to delete it and failed.''),
        ex_world\<lparr>fs := ex_fs\<lparr>undeletable := {file_a}\<rparr>\<rparr>)
   \<and> file_corrupted (ex_indexer\<lparr>self_force := False\<rparr>) file_a ex_world =
       (Inl (CustomRuntimeError ''Index file corrupted! Delete it and retry.''), ex_world)"
  using file_corrupted_policy [of ex_indexer file_a ex_world]
    file_corrupted_policy [of ex_indexer file_a "ex_world\<lparr>fs := ex_fs\<lparr>undeletable := {file_a}\<rparr>\<rparr>"]
    file_corrupted_policy [of "ex_indexer\<lparr>self_force := False\<rparr>" file_a ex_world]
  by (simp add: ex_indexer_def ex_world_def ex_fs_def is_file_def file_a_def file_b_def file_c_def)

end
